theory Spec2Isabelle
  imports Complex_Main
begin

section \<open>Numeric arrays\<close>

text \<open>
  Both scripts compute on one-dimensional numpy arrays. The closed-form theory curves
  are modelled over the reals (the exact arithmetic the formulas denote, without
  rounding), an array being a list and every numpy operator the elementwise map it is.
  The evaluator of pipeline 2 is modelled a second time in binary64, the arithmetic numpy
  runs it in (\<open>calc_theory2_f64\<close>, section ``Binary64 arithmetic'').
\<close>

type_synonym ndarray = "real list"

definition np_neg :: "ndarray \<Rightarrow> ndarray" where
  "np_neg xs = map (\<lambda>x. - x) xs"

definition np_div_scalar :: "ndarray \<Rightarrow> real \<Rightarrow> ndarray" where
  "np_div_scalar xs c = map (\<lambda>x. x / c) xs"

definition np_exp :: "ndarray \<Rightarrow> ndarray" where
  "np_exp xs = map exp xs"

definition np_sqrt :: "ndarray \<Rightarrow> ndarray" where
  "np_sqrt xs = map sqrt xs"

definition np_square :: "ndarray \<Rightarrow> ndarray" where
  "np_square xs = map (\<lambda>x. x ^ 2) xs"

definition scalar_mul :: "real \<Rightarrow> ndarray \<Rightarrow> ndarray" where
  "scalar_mul c xs = map (\<lambda>x. c * x) xs"

definition scalar_add :: "real \<Rightarrow> ndarray \<Rightarrow> ndarray" where
  "scalar_add c xs = map (\<lambda>x. c + x) xs"

definition scalar_div :: "real \<Rightarrow> ndarray \<Rightarrow> ndarray" where
  "scalar_div c xs = map (\<lambda>x. c / x) xs"

definition np_div :: "ndarray \<Rightarrow> ndarray \<Rightarrow> ndarray" where
  "np_div xs ys = map (\<lambda>(x, y). x / y) (zip xs ys)"

section \<open>Pipeline 1: the theory evaluator\<close>

definition PARAM_A1 :: real where "PARAM_A1 = 50"
definition PARAM_B1 :: real where "PARAM_B1 = 25"
definition PARAM_C1 :: real where "PARAM_C1 = 15"
definition PARAM_D1 :: real where "PARAM_D1 = 25"

definition calc_theory1 :: "ndarray \<Rightarrow> ndarray \<times> ndarray" where
  "calc_theory1 x_data =
     (let y1 = scalar_add PARAM_A1
                 (scalar_mul (PARAM_B1 - PARAM_A1) (np_exp (np_div_scalar (np_neg x_data) PARAM_C1)));
          y2 = scalar_add PARAM_A1
                 (scalar_mul (PARAM_B1 - PARAM_A1) (np_exp (np_div_scalar (np_neg x_data) PARAM_D1)))
      in (y1, y2))"

text \<open>The formula of the specification: relaxation from \<open>T0\<close> towards \<open>Tmax\<close>.\<close>

definition relaxation :: "real \<Rightarrow> real \<Rightarrow> real \<Rightarrow> real \<Rightarrow> real" where
  "relaxation Tmax T0 tau t = Tmax + (T0 - Tmax) * exp (- t / tau)"

text \<open>The value of one channel of the evaluator at a single time.\<close>

definition theory1_ch1 :: "real \<Rightarrow> real" where
  "theory1_ch1 t = (case fst (calc_theory1 [t]) of [] \<Rightarrow> 0 | y # _ \<Rightarrow> y)"

definition theory1_ch2 :: "real \<Rightarrow> real" where
  "theory1_ch2 t = (case snd (calc_theory1 [t]) of [] \<Rightarrow> 0 | y # _ \<Rightarrow> y)"

section \<open>Pipeline 2: the theory evaluator\<close>

definition PARAM_A2 :: real where "PARAM_A2 = 2 * pi"
definition PARAM_B2 :: real where "PARAM_B2 = 1 / 10 ^ 6"
definition PARAM_C2 :: real where "PARAM_C2 = 1 / 10 ^ 3"

definition calc_theory2 :: "ndarray \<Rightarrow> ndarray \<times> ndarray" where
  "calc_theory2 x_data =
     (let omega = scalar_mul PARAM_A2 x_data;
          denominator = np_sqrt (scalar_add 1 (scalar_mul PARAM_B2 (np_square omega)));
          y1 = scalar_div 1 denominator;
          y2 = np_div (scalar_mul PARAM_C2 omega) denominator
      in (y1, y2))"

text \<open>
  The formulas of the specification (and of the function's docstring), with
  \<open>\<omega> = 2\<pi>f\<close>, time constant \<open>RC\<close> and gain coefficient \<open>K\<close>.
\<close>

definition G1_spec :: "real \<Rightarrow> real \<Rightarrow> real" where
  "G1_spec RC f = 1 / sqrt (1 + (2 * pi * f * RC) ^ 2)"

definition G2_spec :: "real \<Rightarrow> real \<Rightarrow> real \<Rightarrow> real" where
  "G2_spec K RC f = K * (2 * pi * f) * RC / sqrt (1 + (2 * pi * f * RC) ^ 2)"



section \<open>Measured data\<close>

text \<open>
  A cell of a numeric spreadsheet column, as the cleaning step sees it: a finite number,
  one of the two infinities, or NaN (pandas' marker of a missing cell). Only the class of
  a value and the order of the finite ones matter to the validity filter.
\<close>

datatype fval = Fin real | PInf | NInf | NaN

fun isnan :: "fval \<Rightarrow> bool" where
  "isnan NaN = True"
| "isnan _ = False"

fun isfinite :: "fval \<Rightarrow> bool" where
  "isfinite (Fin _) = True"
| "isfinite _ = False"

text \<open>The comparison \<open>a > b\<close> of two floats: false as soon as one side is NaN.\<close>

fun fgt :: "fval \<Rightarrow> fval \<Rightarrow> bool" where
  "fgt NaN _ = False"
| "fgt _ NaN = False"
| "fgt (Fin a) (Fin b) = (b < a)"
| "fgt (Fin _) PInf = False"
| "fgt (Fin _) NInf = True"
| "fgt PInf PInf = False"
| "fgt PInf _ = True"
| "fgt NInf _ = False"

text \<open>A value whose base-10 logarithm is defined: strictly above zero.\<close>

fun strictly_positive :: "fval \<Rightarrow> bool" where
  "strictly_positive (Fin r) = (0 < r)"
| "strictly_positive PInf = True"
| "strictly_positive NInf = False"
| "strictly_positive NaN = False"

fun flog10 :: "fval \<Rightarrow> fval" where
  "flog10 (Fin r) = (if 0 < r then Fin (log 10 r) else if r = 0 then NInf else NaN)"
| "flog10 PInf = PInf"
| "flog10 NInf = NaN"
| "flog10 NaN = NaN"

type_synonym series = "fval list"
type_synonym bool_series = "bool list"

definition np_isnan :: "series \<Rightarrow> bool_series" where
  "np_isnan xs = map isnan xs"

definition series_not :: "bool_series \<Rightarrow> bool_series" where
  "series_not bs = map Not bs"

definition series_and :: "bool_series \<Rightarrow> bool_series \<Rightarrow> bool_series" where
  "series_and as bs = map (\<lambda>(a, b). a \<and> b) (zip as bs)"

definition series_gt :: "series \<Rightarrow> fval \<Rightarrow> bool_series" where
  "series_gt xs c = map (\<lambda>x. fgt x c) xs"

text \<open>Boolean indexing \<open>xs[mask]\<close>: the entries whose mask bit is set, in order.\<close>

definition series_take :: "series \<Rightarrow> bool_series \<Rightarrow> series" where
  "series_take xs msk = map fst (filter snd (zip xs msk))"

section \<open>Binary64 arithmetic\<close>

text \<open>
  numpy computes the theory curves in binary64. A finite binary64 number is a \<open>Fin r\<close>
  whose \<open>r\<close> lies on the binary64 grid; the two zeros are not told apart (a division
  by zero gives the infinity of the sign of the numerator).
\<close>













section \<open>Exceptions, the data frame and the outside world\<close>

text \<open>
  The exceptions the library calls of the scripts raise, each with its message. All of
  them derive from \<open>Exception\<close>, so the handler \<open>except Exception\<close> around the fits and
  the bare \<open>except\<close> handlers catch the same exceptions here.
\<close>

datatype exn =
    KeyError string
  | ValueError string
  | TypeError string
  | LinAlgError string
  | OSError string

fun exn_str :: "exn \<Rightarrow> string" where
  "exn_str (KeyError k) = [CHR 0x27] @ k @ [CHR 0x27]"
| "exn_str (ValueError m) = m"
| "exn_str (TypeError m) = m"
| "exn_str (LinAlgError m) = m"
| "exn_str (OSError m) = m"

text \<open>
  A data frame: its columns by name, all of one length (the number of rows).
\<close>

type_synonym dataframe = "(string \<times> series) list"

definition wf_dataframe :: "dataframe \<Rightarrow> bool" where
  "wf_dataframe df = (\<forall>c \<in> set df. \<forall>d \<in> set df. length (snd c) = length (snd d))"

definition getitem :: "dataframe \<Rightarrow> string \<Rightarrow> exn + series" where
  "getitem df col = (case map_of df col of None \<Rightarrow> Inl (KeyError col) | Some vs \<Rightarrow> Inr vs)"

text \<open>The builtin \<open>max\<close> over the values of a series; it raises on an empty one.\<close>

fun py_max :: "series \<Rightarrow> exn + fval" where
  "py_max [] = Inl (ValueError ''max() arg is an empty sequence'')"
| "py_max (x # xs) = Inr (foldl (\<lambda>m v. if fgt v m then v else m) x xs)"

text \<open>
  What the scripts take from outside their own text: the outcome of registering the font,
  the directory and base name of the script, the spreadsheet reader, numpy's least-squares
  fit, the launcher of external commands and the joining of paths. Each is a parameter of
  the model; a library call that can raise returns a sum.
\<close>

record env =
  addfont :: "exn option"
  current_dir :: string
  current_file :: string
  path_join :: "string \<Rightarrow> string \<Rightarrow> string"
  read_excel :: "string \<Rightarrow> exn + dataframe"
  polyfit :: "series \<Rightarrow> series \<Rightarrow> nat \<Rightarrow> exn + series"
  subprocess_run :: "string list \<Rightarrow> bool \<Rightarrow> exn + int"

datatype channel = Data1 | Data2

datatype curve = Theory | Fit

text \<open>
  The observable effects of a run, in order: printed lines, the font chosen, the series
  drawn on the chart (the drawn numbers are not part of the trace), the axis set-up, the
  saved file, every attempt to start an external command and every array handed to
  \<open>log10\<close>.
\<close>

datatype event =
    Print string
  | FontFamily string
  | Scatter channel series series
  | Plot curve channel
  | AxisSetup bool bool bool
  | Savefig string nat
  | Run "string list" bool
  | Log10 series

type_synonym 'a io = "event list \<Rightarrow> (exn + 'a) \<times> event list"

definition return :: "'a \<Rightarrow> 'a io" where
  "return a = (\<lambda>tr. (Inr a, tr))"

definition bind :: "'a io \<Rightarrow> ('a \<Rightarrow> 'b io) \<Rightarrow> 'b io" where
  "bind m f = (\<lambda>tr. case m tr of (Inl e, tr') \<Rightarrow> (Inl e, tr') | (Inr a, tr') \<Rightarrow> f a tr')"

definition emit :: "event \<Rightarrow> unit io" where
  "emit ev = (\<lambda>tr. (Inr (), tr @ [ev]))"

definition lift :: "exn + 'a \<Rightarrow> 'a io" where
  "lift r = (\<lambda>tr. (r, tr))"

text \<open>\<open>try: m except: h\<close>; what \<open>m\<close> did before it raised stays done.\<close>

definition try_except :: "'a io \<Rightarrow> (exn \<Rightarrow> 'a io) \<Rightarrow> 'a io" where
  "try_except m h = (\<lambda>tr. case m tr of (Inl e, tr') \<Rightarrow> h e tr' | (Inr a, tr') \<Rightarrow> (Inr a, tr'))"

definition np_log10 :: "series \<Rightarrow> series io" where
  "np_log10 xs = bind (emit (Log10 xs)) (\<lambda>_. return (map flog10 xs))"

text \<open>Unpacking \<open>slope, intercept = ...\<close> raises unless there are exactly two values.\<close>

fun unpack2 :: "series \<Rightarrow> exn + (fval \<times> fval)" where
  "unpack2 [a, b] = Inr (a, b)"
| "unpack2 _ = Inl (ValueError ''wrong number of values to unpack'')"

section \<open>Messages\<close>

text \<open>The printed Japanese texts, as their UTF-8 bytes.\<close>

definition font_notice :: string where
  "font_notice = map char_of
     [230 :: nat, 151, 165, 230, 156, 172, 232, 170, 158, 227, 131, 149, 227, 130, 169, 227, 131,
      179, 227, 131, 136, 227, 129, 174, 232, 168, 173, 229, 174, 154, 227, 129, 171, 229,
      164, 177, 230, 149, 151, 227, 129, 151, 227, 129, 190, 227, 129, 151, 227, 129, 159,
      227, 128, 130, 227, 131, 135, 227, 131, 149, 227, 130, 169, 227, 131, 171, 227, 131,
      136, 227, 131, 149, 227, 130, 169, 227, 131, 179, 227, 131, 136, 227, 130, 146, 228,
      189, 191, 231, 148, 168, 227, 129, 151, 227, 129, 190, 227, 129, 153, 227, 128, 130
     ]"

definition fit_error_prefix1 :: string where
  "fit_error_prefix1 = map char_of
     [232 :: nat, 191, 145, 228, 188, 188, 230, 155, 178, 231, 183, 154, 227, 129, 174, 232, 168,
      136, 231, 174, 151, 227, 129, 167, 227, 130, 168, 227, 131, 169, 227, 131, 188, 227,
      129, 140, 231, 153, 186, 231, 148, 159, 227, 129, 151, 227, 129, 190, 227, 129, 151,
      227, 129, 159, 58, 32
     ]"

definition fit_skip_notice1 :: string where
  "fit_skip_notice1 = map char_of
     [232 :: nat, 191, 145, 228, 188, 188, 230, 155, 178, 231, 183, 154, 227, 129, 174, 232, 161,
      168, 231, 164, 186, 227, 130, 146, 227, 130, 185, 227, 130, 173, 227, 131, 131, 227,
      131, 151, 227, 129, 151, 227, 129, 190, 227, 129, 153
     ]"

definition fit_error_prefix2 :: string where
  "fit_error_prefix2 = map char_of
     [232 :: nat, 191, 145, 228, 188, 188, 231, 155, 180, 231, 183, 154, 227, 129, 174, 232, 168,
      136, 231, 174, 151, 227, 129, 167, 227, 130, 168, 227, 131, 169, 227, 131, 188, 227,
      129, 140, 231, 153, 186, 231, 148, 159, 227, 129, 151, 227, 129, 190, 227, 129, 151,
      227, 129, 159, 58, 32
     ]"

definition fit_skip_notice2 :: string where
  "fit_skip_notice2 = map char_of
     [232 :: nat, 191, 145, 228, 188, 188, 231, 155, 180, 231, 183, 154, 227, 129, 174, 232, 161,
      168, 231, 164, 186, 227, 130, 146, 227, 130, 185, 227, 130, 173, 227, 131, 131, 227,
      131, 151, 227, 129, 151, 227, 129, 190, 227, 129, 153
     ]"

definition saved_prefix :: string where
  "saved_prefix = map char_of
     [227 :: nat, 130, 176, 227, 131, 169, 227, 131, 149, 227, 130, 146, 228, 191, 157, 229, 173,
      152, 227, 129, 151, 227, 129, 190, 227, 129, 151, 227, 129, 159, 58, 32
     ]"

definition open_manually_notice :: string where
  "open_manually_notice = map char_of
     [227 :: nat, 131, 149, 227, 130, 161, 227, 130, 164, 227, 131, 171, 227, 130, 146, 230, 137,
      139, 229, 139, 149, 227, 129, 167, 233, 150, 139, 227, 129, 132, 227, 129, 166, 227,
      129, 143, 227, 129, 160, 227, 129, 149, 227, 129, 132, 227, 128, 130
     ]"

section \<open>Stages shared by both scripts\<close>

definition DPI :: nat where "DPI = 300"
definition PLOT_THEORY :: bool where "PLOT_THEORY = True"
definition PLOT_FIT :: bool where "PLOT_FIT = True"

definition font_setup :: "env \<Rightarrow> unit io" where
  "font_setup env =
     try_except
       (bind (lift (case addfont env of None \<Rightarrow> Inr () | Some e \<Rightarrow> Inl e))
          (\<lambda>_. emit (FontFamily ''Hiragino Sans'')))
       (\<lambda>_. bind (emit (Print font_notice)) (\<lambda>_. emit (FontFamily ''sans-serif'')))"

text \<open>
  The chain that opens the saved image: each opener is tried inside the handler of the
  one before it, and the last handler prints where the file is.
\<close>

definition open_image :: "env \<Rightarrow> string \<Rightarrow> unit io" where
  "open_image env output_path =
     try_except
       (bind (emit (Run [''open'', output_path] False))
          (\<lambda>_. bind (lift (subprocess_run env [''open'', output_path] False)) (\<lambda>_. return ())))
       (\<lambda>_. try_except
          (bind (emit (Run [''start'', output_path] True))
             (\<lambda>_. bind (lift (subprocess_run env [''start'', output_path] True)) (\<lambda>_. return ())))
          (\<lambda>_. try_except
             (bind (emit (Run [''xdg-open'', output_path] False))
                (\<lambda>_. bind (lift (subprocess_run env [''xdg-open'', output_path] False))
                   (\<lambda>_. return ())))
             (\<lambda>_. bind (emit (Print (saved_prefix @ output_path)))
                (\<lambda>_. emit (Print open_manually_notice)))))"

definition save_and_open :: "env \<Rightarrow> unit io" where
  "save_and_open env =
     (let output_path = path_join env (current_dir env) (current_file env @ ''.png'')
      in bind (emit (Savefig output_path DPI)) (\<lambda>_. open_image env output_path))"

section \<open>Pipeline 1: the script\<close>

definition DATA_FILE1 :: string where "DATA_FILE1 = ''data1.xlsm''"
definition X_COL1 :: string where "X_COL1 = ''Time''"
definition Y1_COL1 :: string where "Y1_COL1 = ''Temp1''"
definition Y2_COL1 :: string where "Y2_COL1 = ''Temp2''"

definition mask1 :: "series \<Rightarrow> series \<Rightarrow> series \<Rightarrow> bool_series" where
  "mask1 x_data y1_data y2_data =
     series_and (series_and (series_not (np_isnan x_data)) (series_not (np_isnan y1_data)))
       (series_not (np_isnan y2_data))"

definition clean1 :: "dataframe \<Rightarrow> exn + (series \<times> series \<times> series)" where
  "clean1 df =
     (case getitem df X_COL1 of Inl e \<Rightarrow> Inl e | Inr x_data \<Rightarrow>
      case getitem df Y1_COL1 of Inl e \<Rightarrow> Inl e | Inr y1_data \<Rightarrow>
      case getitem df Y2_COL1 of Inl e \<Rightarrow> Inl e | Inr y2_data \<Rightarrow>
        (let msk = mask1 x_data y1_data y2_data
         in Inr (series_take x_data msk, series_take y1_data msk, series_take y2_data msk)))"

definition load1 :: "env \<Rightarrow> (series \<times> series \<times> series) io" where
  "load1 env =
     bind (lift (read_excel env (path_join env (current_dir env) DATA_FILE1)))
       (\<lambda>df. lift (clean1 df))"

definition theory_stage1 :: "series \<Rightarrow> unit io" where
  "theory_stage1 x_data =
     (if PLOT_THEORY
      then bind (lift (py_max x_data))
             (\<lambda>_. bind (emit (Plot Theory Data1)) (\<lambda>_. emit (Plot Theory Data2)))
      else return ())"

definition fit_stage1 :: "env \<Rightarrow> series \<Rightarrow> series \<Rightarrow> series \<Rightarrow> unit io" where
  "fit_stage1 env x_data y1_data y2_data =
     (if PLOT_FIT
      then try_except
             (bind (lift (polyfit env x_data y1_data 2))
                (\<lambda>coef1. bind (lift (py_max x_data))
                (\<lambda>_. bind (emit (Plot Fit Data1))
                (\<lambda>_. bind (lift (polyfit env x_data y2_data 2))
                (\<lambda>coef2. emit (Plot Fit Data2))))))
             (\<lambda>e. bind (emit (Print (fit_error_prefix1 @ exn_str e)))
                (\<lambda>_. emit (Print fit_skip_notice1)))
      else return ())"

definition render1 :: "env \<Rightarrow> series \<times> series \<times> series \<Rightarrow> unit io" where
  "render1 env d =
     (case d of (x_data, y1_data, y2_data) \<Rightarrow>
        bind (emit (Scatter Data1 x_data y1_data))
          (\<lambda>_. bind (emit (Scatter Data2 x_data y2_data))
          (\<lambda>_. bind (theory_stage1 x_data)
          (\<lambda>_. bind (fit_stage1 env x_data y1_data y2_data)
          (\<lambda>_. emit (AxisSetup False False True))))))"

definition main1 :: "env \<Rightarrow> unit io" where
  "main1 env =
     bind (font_setup env)
       (\<lambda>_. bind (load1 env)
       (\<lambda>d. bind (render1 env d)
       (\<lambda>_. save_and_open env)))"

section \<open>Pipeline 2: the script\<close>

definition DATA_FILE2 :: string where "DATA_FILE2 = ''data2.xlsm''"
definition X_COL2 :: string where "X_COL2 = ''Hz''"
definition Y1_COL2 :: string where "Y1_COL2 = ''G_s''"
definition Y2_COL2 :: string where "Y2_COL2 = ''G_b''"

definition mask2 :: "series \<Rightarrow> series \<Rightarrow> series \<Rightarrow> bool_series" where
  "mask2 x_data y1_data y2_data =
     series_and
       (series_and
          (series_and
             (series_and
                (series_and (series_gt x_data (Fin 0)) (series_gt y1_data (Fin 0)))
                (series_gt y2_data (Fin 0)))
             (series_not (np_isnan x_data)))
          (series_not (np_isnan y1_data)))
       (series_not (np_isnan y2_data))"

definition clean2 :: "dataframe \<Rightarrow> exn + (series \<times> series \<times> series)" where
  "clean2 df =
     (case getitem df X_COL2 of Inl e \<Rightarrow> Inl e | Inr x_data \<Rightarrow>
      case getitem df Y1_COL2 of Inl e \<Rightarrow> Inl e | Inr y1_data \<Rightarrow>
      case getitem df Y2_COL2 of Inl e \<Rightarrow> Inl e | Inr y2_data \<Rightarrow>
        (let msk = mask2 x_data y1_data y2_data
         in Inr (series_take x_data msk, series_take y1_data msk, series_take y2_data msk)))"

definition load2 :: "env \<Rightarrow> (series \<times> series \<times> series) io" where
  "load2 env =
     bind (lift (read_excel env (path_join env (current_dir env) DATA_FILE2)))
       (\<lambda>df. lift (clean2 df))"

definition theory_stage2 :: "series \<Rightarrow> unit io" where
  "theory_stage2 x_data =
     (if PLOT_THEORY
      then bind (emit (Plot Theory Data1)) (\<lambda>_. emit (Plot Theory Data2))
      else return ())"

text \<open>One power-law fit: a straight line through the logarithms, then drawn.\<close>

definition loglog_fit :: "env \<Rightarrow> channel \<Rightarrow> series \<Rightarrow> series \<Rightarrow> unit io" where
  "loglog_fit env ch x_data y_data =
     bind (np_log10 x_data)
       (\<lambda>lx. bind (np_log10 y_data)
       (\<lambda>ly. bind (lift (polyfit env lx ly 1))
       (\<lambda>coef. bind (lift (unpack2 coef))
       (\<lambda>_. bind (np_log10 x_data)
       (\<lambda>_. emit (Plot Fit ch))))))"

definition fit_stage2 :: "env \<Rightarrow> series \<Rightarrow> series \<Rightarrow> series \<Rightarrow> unit io" where
  "fit_stage2 env x_data y1_data y2_data =
     (if PLOT_FIT
      then try_except
             (bind (loglog_fit env Data1 x_data y1_data)
                (\<lambda>_. loglog_fit env Data2 x_data y2_data))
             (\<lambda>e. bind (emit (Print (fit_error_prefix2 @ exn_str e)))
                (\<lambda>_. emit (Print fit_skip_notice2)))
      else return ())"

definition render2 :: "env \<Rightarrow> series \<times> series \<times> series \<Rightarrow> unit io" where
  "render2 env d =
     (case d of (x_data, y1_data, y2_data) \<Rightarrow>
        bind (emit (Scatter Data1 x_data y1_data))
          (\<lambda>_. bind (emit (Scatter Data2 x_data y2_data))
          (\<lambda>_. bind (theory_stage2 x_data)
          (\<lambda>_. bind (fit_stage2 env x_data y1_data y2_data)
          (\<lambda>_. emit (AxisSetup True True False))))))"

definition main2 :: "env \<Rightarrow> unit io" where
  "main2 env =
     bind (font_setup env)
       (\<lambda>_. bind (load2 env)
       (\<lambda>d. bind (render2 env d)
       (\<lambda>_. save_and_open env)))"

text \<open>Events that put something on the chart or on disk.\<close>

fun is_render :: "event \<Rightarrow> bool" where
  "is_render (Scatter _ _ _) = True"
| "is_render (Plot _ _) = True"
| "is_render (AxisSetup _ _ _) = True"
| "is_render (Savefig _ _) = True"
| "is_render _ = False"

fun is_savefig :: "event \<Rightarrow> bool" where
  "is_savefig (Savefig _ _) = True"
| "is_savefig _ = False"

fun is_fit_plot :: "event \<Rightarrow> bool" where
  "is_fit_plot (Plot Fit _) = True"
| "is_fit_plot _ = False"

section \<open>Sample inputs\<close>

text \<open>
  A spreadsheet with the columns of both scripts. For pipeline 1 the rows 0 and 1 are
  valid, for pipeline 2 the rows 0 and 1 as well (row 2 has a zero frequency, row 3 a
  missing cell); the second measured channel holds an infinite value in a valid row.
\<close>

definition sample_frame :: dataframe where
  "sample_frame =
     [(''Time'', [Fin 0, Fin 1, NaN, Fin 3]),
      (''Temp1'', [Fin 25, Fin 30, Fin 33, NaN]),
      (''Temp2'', [Fin 25, PInf, Fin 30, Fin 31]),
      (''Hz'', [Fin 10, Fin 100, Fin 0, Fin 1000]),
      (''G_s'', [Fin 1, Fin (1 / 2), Fin 1, NaN]),
      (''G_b'', [Fin (1 / 100), PInf, Fin 1, Fin 1])]"

text \<open>A spreadsheet in which every row has a missing cell.\<close>

definition blank_frame :: dataframe where
  "blank_frame =
     [(''Time'', [NaN, Fin 1]), (''Temp1'', [Fin 25, NaN]), (''Temp2'', [Fin 25, Fin 26])]"

text \<open>A spreadsheet without the second and third column of either script.\<close>

definition short_frame :: dataframe where
  "short_frame = [(''Time'', [Fin 0]), (''Hz'', [Fin 10])]"

text \<open>A fit that always raises, and one that raises on data with a non-finite entry.\<close>

definition polyfit_raising :: "series \<Rightarrow> series \<Rightarrow> nat \<Rightarrow> exn + series" where
  "polyfit_raising x y deg = Inl (LinAlgError ''SVD did not converge in Linear Least Squares'')"

definition polyfit_finite :: "series \<Rightarrow> series \<Rightarrow> nat \<Rightarrow> exn + series" where
  "polyfit_finite x y deg =
     (if list_all isfinite y then Inr (replicate (deg + 1) (Fin 0))
      else Inl (LinAlgError ''SVD did not converge in Linear Least Squares''))"

text \<open>A host without the font and without any of the three opener commands.\<close>

definition sample_env :: "dataframe \<Rightarrow> (series \<Rightarrow> series \<Rightarrow> nat \<Rightarrow> exn + series) \<Rightarrow> env" where
  "sample_env frame fit =
     \<lparr> addfont = Some (OSError ''font file not found''),
       current_dir = ''/home/user/graphs'',
       current_file = ''graph'',
       path_join = (\<lambda>a b. a @ ''/'' @ b),
       read_excel = (\<lambda>_. Inr frame),
       polyfit = fit,
       subprocess_run = (\<lambda>_ _. Inl (OSError ''No such file or directory'')) \<rparr>"

text \<open>
  A Linux host: \<open>open\<close> cannot be launched, a command run through the shell is started
  by the shell whatever it is (\<open>start\<close> is then not found, exit status 127), and
  \<open>xdg-open\<close> is installed.
\<close>

definition posix_run :: "string list \<Rightarrow> bool \<Rightarrow> exn + int" where
  "posix_run cmd shell =
     (if shell then Inr 127
      else if take 1 cmd = [''xdg-open''] then Inr 0
      else Inl (OSError ''No such file or directory''))"

definition posix_host :: env where
  "posix_host = (sample_env sample_frame polyfit_finite) \<lparr> subprocess_run := posix_run \<rparr>"

section \<open>The theory evaluators\<close>

lemmas np_defs = np_neg_def np_div_scalar_def np_exp_def np_sqrt_def np_square_def
  scalar_mul_def scalar_add_def scalar_div_def np_div_def

lemma theory1_ch1_eq: "theory1_ch1 t = PARAM_A1 + (PARAM_B1 - PARAM_A1) * exp (- t / PARAM_C1)"
  by (simp add: theory1_ch1_def calc_theory1_def np_defs)

lemma theory1_ch2_eq: "theory1_ch2 t = PARAM_A1 + (PARAM_B1 - PARAM_A1) * exp (- t / PARAM_D1)"
  by (simp add: theory1_ch2_def calc_theory1_def np_defs)

lemma exp_decay_tendsto:
  assumes c: "0 < (c::real)"
  shows "((\<lambda>t. exp (- t / c)) \<longlongrightarrow> 0) at_top"
proof -
  have "filterlim (\<lambda>t::real. - t / c) at_bot at_top"
    unfolding filterlim_at_bot eventually_at_top_linorder
  proof
    fix Z :: real
    show "\<exists>N. \<forall>n\<ge>N. - n / c \<le> Z"
    proof (rule exI [of _ "- Z * c"], intro allI impI)
      fix n :: real
      assume "- Z * c \<le> n"
      then have "- n \<le> Z * c" by simp
      then show "- n / c \<le> Z" using c by (simp add: field_simps)
    qed
  qed
  then show ?thesis
    by (rule filterlim_compose [OF exp_at_bot])
qed

lemma relaxation_tendsto:
  assumes c: "0 < (c::real)"
  shows "((\<lambda>t. a + (b - a) * exp (- t / c)) \<longlongrightarrow> a) at_top"
proof -
  have "((\<lambda>t. a + (b - a) * exp (- t / c)) \<longlongrightarrow> a + (b - a) * 0) at_top"
    by (intro tendsto_intros exp_decay_tendsto [OF c])
  then show ?thesis by simp
qed

text \<open>
  Claim C6. At \<open>t = 0\<close> both channels of pipeline 1's theory evaluator equal the initial
  temperature \<open>PARAM_B\<close>, and as \<open>t\<close> grows without bound each channel tends to the
  asymptote \<open>PARAM_A\<close>.
\<close>

theorem theory1_initial_and_asymptote: "theory1_ch1 0 = PARAM_B1 \<and> theory1_ch2 0 = PARAM_B1 \<and>
   (theory1_ch1 \<longlongrightarrow> PARAM_A1) at_top \<and> (theory1_ch2 \<longlongrightarrow> PARAM_A1) at_top"
proof (intro conjI)
  show "theory1_ch1 0 = PARAM_B1" by (simp add: theory1_ch1_eq)
  show "theory1_ch2 0 = PARAM_B1" by (simp add: theory1_ch2_eq)
  have c: "0 < PARAM_C1" and d: "0 < PARAM_D1" by (simp_all add: PARAM_C1_def PARAM_D1_def)
  show "(theory1_ch1 \<longlongrightarrow> PARAM_A1) at_top"
    using relaxation_tendsto [OF c, of PARAM_A1 PARAM_B1]
    by (simp add: theory1_ch1_eq [abs_def])
  show "(theory1_ch2 \<longlongrightarrow> PARAM_A1) at_top"
    using relaxation_tendsto [OF d, of PARAM_A1 PARAM_B1]
    by (simp add: theory1_ch2_eq [abs_def])
qed









lemma params2_pos: "0 < PARAM_A2" "0 < PARAM_B2" "0 < PARAM_C2"
  by (simp_all add: PARAM_A2_def PARAM_B2_def PARAM_C2_def)



text \<open>
  Claim C5. For every time sequence, pipeline 1's theory evaluator returns two channels,
  each the relaxation \<open>T(t) = Tmax + (T0 - Tmax) * exp (- t / tau)\<close> applied to every
  entry, with \<open>Tmax = PARAM_A\<close>, \<open>T0 = PARAM_B\<close>, and \<open>tau = PARAM_C\<close> on channel 1,
  \<open>tau = PARAM_D\<close> on channel 2.
\<close>

theorem calc_theory1_relaxation:
  "calc_theory1 x_data = (map (relaxation PARAM_A1 PARAM_B1 PARAM_C1) x_data,
                          map (relaxation PARAM_A1 PARAM_B1 PARAM_D1) x_data)"
  by (simp add: calc_theory1_def np_defs relaxation_def)

text \<open>What pipeline 2's evaluator computes, entry by entry.\<close>

lemma calc_theory2_map:
  "calc_theory2 x_data =
     (map (\<lambda>f. 1 / sqrt (1 + PARAM_B2 * (PARAM_A2 * f) ^ 2)) x_data,
      map (\<lambda>f. PARAM_C2 * (PARAM_A2 * f) / sqrt (1 + PARAM_B2 * (PARAM_A2 * f) ^ 2)) x_data)"
  by (simp add: calc_theory2_def np_defs zip_map_map zip_same_conv_map)

text \<open>
  Claim C1. The claim is that pipeline 2's theory evaluator returns
  \<open>G1(f) = 1 / sqrt (1 + (\<omega>RC)\<^sup>2)\<close> and \<open>G2(f) = K\<omega>RC / sqrt (1 + (\<omega>RC)\<^sup>2)\<close>, as the
  function's docstring also says. The code computes \<open>1 + RC * \<omega>\<^sup>2\<close> under the root and
  \<open>K * \<omega>\<close> in the numerator, so at the frequency \<open>f = 1\<close> its result is not the pair
  of the claim.
\<close>

theorem calc_theory2_not_docstring_formula:
  "calc_theory2 [1] \<noteq> (map (G1_spec PARAM_B2) [1], map (G2_spec PARAM_C2 PARAM_B2) [1])"
proof
  assume "calc_theory2 [1] = (map (G1_spec PARAM_B2) [1], map (G2_spec PARAM_C2 PARAM_B2) [1])"
  then have "1 / sqrt (1 + PARAM_B2 * (PARAM_A2 * 1) ^ 2) = G1_spec PARAM_B2 1"
    by (simp add: calc_theory2_def np_defs)
  then have "sqrt (1 + PARAM_B2 * (PARAM_A2) ^ 2) = sqrt (1 + (2 * pi * PARAM_B2) ^ 2)"
    by (simp add: G1_spec_def)
  then have "PARAM_B2 * (PARAM_A2) ^ 2 = (2 * pi * PARAM_B2) ^ 2"
    by simp
  then have "PARAM_B2 * (2 * pi) ^ 2 = PARAM_B2 * (PARAM_B2 * (2 * pi) ^ 2)"
    by (simp add: PARAM_A2_def power2_eq_square)
  then have "(2 * pi) ^ 2 = PARAM_B2 * (2 * pi) ^ 2"
    using params2_pos by simp
  then have "PARAM_B2 = 1" by simp
  then show False by (simp add: PARAM_B2_def)
qed

section \<open>Pipeline 2 in binary64\<close>






























section \<open>The scripts\<close>

lemmas io_defs = return_def bind_def emit_def lift_def try_except_def

lemma font_setup_result:
  "font_setup env tr =
     (Inr (), tr @ (case addfont env of None \<Rightarrow> [FontFamily ''Hiragino Sans'']
                    | Some e \<Rightarrow> [Print font_notice, FontFamily ''sans-serif'']))"
  by (simp add: font_setup_def io_defs split: option.splits)

lemma open_image_result:
  "open_image env p tr =
     (Inr (), tr @ Run [''open'', p] False #
        (case subprocess_run env [''open'', p] False of Inr _ \<Rightarrow> [] | Inl _ \<Rightarrow>
           Run [''start'', p] True #
           (case subprocess_run env [''start'', p] True of Inr _ \<Rightarrow> [] | Inl _ \<Rightarrow>
              Run [''xdg-open'', p] False #
              (case subprocess_run env [''xdg-open'', p] False of Inr _ \<Rightarrow> [] | Inl _ \<Rightarrow>
                 [Print (saved_prefix @ p), Print open_manually_notice]))))"
  by (simp add: open_image_def io_defs split: sum.splits)

lemma posix_host_simps:
  "subprocess_run posix_host = posix_run"
  "path_join posix_host (current_dir posix_host) (current_file posix_host @ ''.png'')
     = ''/home/user/graphs/graph.png''"
  by (simp_all add: posix_host_def sample_env_def)

text \<open>
  Claim C3. The claim has the three opener commands tried one after the other when
  opening fails, and the output path printed when all three fail; the comments of the
  scripts name the third attempt, \<open>xdg-open\<close>, the Linux case. The scripts go on to the
  next command only when \<open>subprocess.run\<close> raises, and they do not look at the exit
  status. On a Linux host \<open>open\<close> cannot be launched and raises, but \<open>start\<close> is run
  through the shell, which starts, does not find it and exits with status 127 without
  any exception: the chain ends there. \<open>xdg-open\<close> is never tried although it is
  installed, the image is not opened and no line with the path is printed.
\<close>

theorem open_chain_stops_after_start:
  "subprocess_run posix_host [''open'', ''/home/user/graphs/graph.png''] False
     = Inl (OSError ''No such file or directory'') \<and>
   subprocess_run posix_host [''start'', ''/home/user/graphs/graph.png''] True = Inr 127 \<and>
   subprocess_run posix_host [''xdg-open'', ''/home/user/graphs/graph.png''] False = Inr 0 \<and>
   save_and_open posix_host [] =
     (Inr (),
      [Savefig ''/home/user/graphs/graph.png'' DPI,
       Run [''open'', ''/home/user/graphs/graph.png''] False,
       Run [''start'', ''/home/user/graphs/graph.png''] True]) \<and>
   Run [''xdg-open'', ''/home/user/graphs/graph.png''] False
     \<notin> set (snd (save_and_open posix_host [])) \<and>
   Print (saved_prefix @ ''/home/user/graphs/graph.png'')
     \<notin> set (snd (save_and_open posix_host []))"
  by (simp add: save_and_open_def Let_def bind_def emit_def open_image_result
        posix_host_simps posix_run_def)

lemma getitem_missing: "map_of df c = None \<Longrightarrow> getitem df c = Inl (KeyError c)"
  by (simp add: getitem_def)

lemma clean1_missing:
  assumes "map_of df X_COL1 = None \<or> map_of df Y1_COL1 = None \<or> map_of df Y2_COL1 = None"
  shows "\<exists>c \<in> {X_COL1, Y1_COL1, Y2_COL1}. clean1 df = Inl (KeyError c)"
  using assms by (auto simp add: clean1_def getitem_def split: option.splits)

lemma clean2_missing:
  assumes "map_of df X_COL2 = None \<or> map_of df Y1_COL2 = None \<or> map_of df Y2_COL2 = None"
  shows "\<exists>c \<in> {X_COL2, Y1_COL2, Y2_COL2}. clean2 df = Inl (KeyError c)"
  using assms by (auto simp add: clean2_def getitem_def split: option.splits)

lemma font_trace_no_render:
  "\<not> list_ex is_render (case addfont env of None \<Rightarrow> [FontFamily ''Hiragino Sans'']
                    | Some e \<Rightarrow> [Print font_notice, FontFamily ''sans-serif''])"
  by (simp split: option.splits)

lemma main1_load_fails:
  assumes "read_excel env (path_join env (current_dir env) DATA_FILE1) = Inr df"
    and "clean1 df = Inl e"
  shows "fst (main1 env []) = Inl e" and "\<not> list_ex is_render (snd (main1 env []))"
  using assms font_trace_no_render [of env]
  by (simp_all add: main1_def load1_def bind_def lift_def font_setup_result)

lemma main2_load_fails:
  assumes "read_excel env (path_join env (current_dir env) DATA_FILE2) = Inr df"
    and "clean2 df = Inl e"
  shows "fst (main2 env []) = Inl e" and "\<not> list_ex is_render (snd (main2 env []))"
  using assms font_trace_no_render [of env]
  by (simp_all add: main2_def load2_def bind_def lift_def font_setup_result)

text \<open>
  Claim C8. When the spreadsheet was read and one of the three required columns is absent,
  the run of either script ends with the \<open>KeyError\<close> of a required column, uncaught,
  and nothing was drawn or saved before.
\<close>

theorem missing_column_aborts:
  "(read_excel env (path_join env (current_dir env) DATA_FILE1) = Inr df \<and>
    (map_of df X_COL1 = None \<or> map_of df Y1_COL1 = None \<or> map_of df Y2_COL1 = None) \<longrightarrow>
      (\<exists>c \<in> {X_COL1, Y1_COL1, Y2_COL1}. fst (main1 env []) = Inl (KeyError c)) \<and>
      \<not> list_ex is_render (snd (main1 env []))) \<and>
   (read_excel env (path_join env (current_dir env) DATA_FILE2) = Inr df \<and>
    (map_of df X_COL2 = None \<or> map_of df Y1_COL2 = None \<or> map_of df Y2_COL2 = None) \<longrightarrow>
      (\<exists>c \<in> {X_COL2, Y1_COL2, Y2_COL2}. fst (main2 env []) = Inl (KeyError c)) \<and>
      \<not> list_ex is_render (snd (main2 env [])))"
proof (intro conjI impI)
  assume h: "read_excel env (path_join env (current_dir env) DATA_FILE1) = Inr df \<and>
    (map_of df X_COL1 = None \<or> map_of df Y1_COL1 = None \<or> map_of df Y2_COL1 = None)"
  then obtain c where c: "c \<in> {X_COL1, Y1_COL1, Y2_COL1}" "clean1 df = Inl (KeyError c)"
    using clean1_missing [of df] by blast
  from h c show "\<exists>c \<in> {X_COL1, Y1_COL1, Y2_COL1}. fst (main1 env []) = Inl (KeyError c)"
    using main1_load_fails(1) by blast
  from h c show "\<not> list_ex is_render (snd (main1 env []))"
    using main1_load_fails(2) by blast
next
  assume h: "read_excel env (path_join env (current_dir env) DATA_FILE2) = Inr df \<and>
    (map_of df X_COL2 = None \<or> map_of df Y1_COL2 = None \<or> map_of df Y2_COL2 = None)"
  then obtain c where c: "c \<in> {X_COL2, Y1_COL2, Y2_COL2}" "clean2 df = Inl (KeyError c)"
    using clean2_missing [of df] by blast
  from h c show "\<exists>c \<in> {X_COL2, Y1_COL2, Y2_COL2}. fst (main2 env []) = Inl (KeyError c)"
    using main2_load_fails(1) by blast
  from h c show "\<not> list_ex is_render (snd (main2 env []))"
    using main2_load_fails(2) by blast
qed

lemma py_max_nonempty: "x \<noteq> [] \<Longrightarrow> \<exists>m. py_max x = Inr m"
  by (cases x) simp_all

lemma theory_stage1_empty:
  "theory_stage1 [] tr = (Inl (ValueError ''max() arg is an empty sequence''), tr)"
  by (simp add: theory_stage1_def PLOT_THEORY_def io_defs)

lemma theory_stage1_nonempty:
  "x \<noteq> [] \<Longrightarrow> theory_stage1 x tr = (Inr (), tr @ [Plot Theory Data1, Plot Theory Data2])"
  by (cases x) (simp_all add: theory_stage1_def PLOT_THEORY_def io_defs)

lemma fit_stage1_result:
  assumes "x \<noteq> []"
  shows "fit_stage1 env x y1 y2 tr =
     (Inr (), tr @
        (case polyfit env x y1 2 of
           Inl e \<Rightarrow> [Print (fit_error_prefix1 @ exn_str e), Print fit_skip_notice1]
         | Inr _ \<Rightarrow> Plot Fit Data1 #
             (case polyfit env x y2 2 of
                Inl e \<Rightarrow> [Print (fit_error_prefix1 @ exn_str e), Print fit_skip_notice1]
              | Inr _ \<Rightarrow> [Plot Fit Data2])))"
  using assms
  by (cases x) (simp_all add: fit_stage1_def PLOT_FIT_def io_defs split: sum.splits)

lemma save_and_open_result:
  "save_and_open env tr =
     (Inr (), tr @ Savefig (path_join env (current_dir env) (current_file env @ ''.png'')) DPI #
        snd (open_image env (path_join env (current_dir env) (current_file env @ ''.png'')) []))"
  by (simp add: save_and_open_def Let_def bind_def emit_def open_image_result)

lemma open_image_no_plots:
  "\<not> list_ex is_fit_plot (snd (open_image env p []))"
  "\<forall>c ch. Plot c ch \<notin> set (snd (open_image env p []))"
  "\<forall>xs. Log10 xs \<notin> set (snd (open_image env p []))"
  by (simp_all add: open_image_result split: sum.splits)

lemma font_trace_no_plots:
  "\<not> list_ex is_fit_plot (snd (font_setup env []))"
  "\<not> list_ex is_savefig (snd (font_setup env []))"
  "\<forall>c ch. Plot c ch \<notin> set (snd (font_setup env []))"
  "\<forall>xs. Log10 xs \<notin> set (snd (font_setup env []))"
  by (simp_all add: font_setup_result split: option.splits)

lemma font_setup_split: "font_setup env tr = (Inr (), tr @ snd (font_setup env []))"
  by (simp add: font_setup_result)

lemma main1_unfold:
  "main1 env [] =
     (case read_excel env (path_join env (current_dir env) DATA_FILE1) of
        Inl e \<Rightarrow> (Inl e, snd (font_setup env []))
      | Inr df \<Rightarrow>
          (case clean1 df of
             Inl e \<Rightarrow> (Inl e, snd (font_setup env []))
           | Inr d \<Rightarrow> bind (render1 env d) (\<lambda>_. save_and_open env) (snd (font_setup env []))))"
proof -
  define ftr where "ftr = snd (font_setup env [])"
  have f: "font_setup env [] = (Inr (), ftr)"
    by (simp add: ftr_def font_setup_result)
  show ?thesis
    unfolding ftr_def [symmetric]
    by (simp add: main1_def load1_def bind_def lift_def f split: sum.splits)
qed

lemma main1_empty:
  assumes "read_excel env (path_join env (current_dir env) DATA_FILE1) = Inr df"
    and "clean1 df = Inr ([], y1, y2)"
  shows "main1 env [] = (Inl (ValueError ''max() arg is an empty sequence''),
           snd (font_setup env []) @ [Scatter Data1 [] y1, Scatter Data2 [] y2])"
  using assms
  by (simp add: main1_unfold render1_def bind_def emit_def theory_stage1_empty)

lemma main1_nonempty:
  assumes "read_excel env (path_join env (current_dir env) DATA_FILE1) = Inr df"
    and "clean1 df = Inr (x, y1, y2)" and "x \<noteq> []"
  shows "main1 env [] = (Inr (),
           snd (font_setup env []) @
           [Scatter Data1 x y1, Scatter Data2 x y2, Plot Theory Data1, Plot Theory Data2] @
           snd (fit_stage1 env x y1 y2 []) @ [AxisSetup False False True] @
           snd (save_and_open env []))"
  using assms
  by (simp add: main1_unfold render1_def bind_def emit_def theory_stage1_nonempty
        fit_stage1_result save_and_open_result)

lemma main1_read_fails:
  assumes "read_excel env (path_join env (current_dir env) DATA_FILE1) = Inl e"
  shows "main1 env [] = (Inl e, snd (font_setup env []))"
  using assms by (simp add: main1_unfold)

lemma main1_clean_fails:
  assumes "read_excel env (path_join env (current_dir env) DATA_FILE1) = Inr df"
    and "clean1 df = Inl e"
  shows "main1 env [] = (Inl e, snd (font_setup env []))"
  using assms by (simp add: main1_unfold)

text \<open>
  Claim C9. In pipeline 1, when the validity filter leaves no row, \<open>max\<close> over the empty
  abscissa raises a \<open>ValueError\<close> that nothing catches, and the run ends before the image
  is saved; hence a run that saved the image had a spreadsheet whose cleaned data are
  not empty.
\<close>

theorem empty_data_aborts_before_save:
  "(read_excel env (path_join env (current_dir env) DATA_FILE1) = Inr df \<and>
    clean1 df = Inr ([], y1, y2) \<longrightarrow>
      fst (main1 env []) = Inl (ValueError ''max() arg is an empty sequence'') \<and>
      \<not> list_ex is_savefig (snd (main1 env []))) \<and>
   (list_ex is_savefig (snd (main1 env [])) \<longrightarrow>
      (\<exists>df' x' y1' y2'. read_excel env (path_join env (current_dir env) DATA_FILE1) = Inr df' \<and>
         clean1 df' = Inr (x', y1', y2') \<and> x' \<noteq> []))"
proof (intro conjI impI)
  assume h: "read_excel env (path_join env (current_dir env) DATA_FILE1) = Inr df \<and>
    clean1 df = Inr ([], y1, y2)"
  then have m: "main1 env [] = (Inl (ValueError ''max() arg is an empty sequence''),
           snd (font_setup env []) @ [Scatter Data1 [] y1, Scatter Data2 [] y2])"
    using main1_empty by blast
  show "fst (main1 env []) = Inl (ValueError ''max() arg is an empty sequence'')"
    by (simp add: m)
  show "\<not> list_ex is_savefig (snd (main1 env []))"
    by (simp add: m font_trace_no_plots)
next
  assume s: "list_ex is_savefig (snd (main1 env []))"
  show "\<exists>df' x' y1' y2'. read_excel env (path_join env (current_dir env) DATA_FILE1) = Inr df' \<and>
         clean1 df' = Inr (x', y1', y2') \<and> x' \<noteq> []"
  proof (cases "read_excel env (path_join env (current_dir env) DATA_FILE1)")
    case (Inl e)
    then show ?thesis using s main1_read_fails [OF Inl] by (simp add: font_trace_no_plots)
  next
    case (Inr df')
    show ?thesis
    proof (cases "clean1 df'")
      case (Inl e)
      then show ?thesis using s main1_clean_fails [OF Inr Inl] by (simp add: font_trace_no_plots)
    next
      case r: (Inr d)
      obtain x' y1' y2' where d: "d = (x', y1', y2')" by (cases d) auto
      show ?thesis
      proof (cases "x' = []")
        case True
        then show ?thesis
          using s main1_empty [OF Inr, of y1' y2'] r d by (simp add: font_trace_no_plots)
      next
        case False
        then show ?thesis using Inr r d by blast
      qed
    qed
  qed
qed

lemma main2_unfold:
  "main2 env [] =
     (case read_excel env (path_join env (current_dir env) DATA_FILE2) of
        Inl e \<Rightarrow> (Inl e, snd (font_setup env []))
      | Inr df \<Rightarrow>
          (case clean2 df of
             Inl e \<Rightarrow> (Inl e, snd (font_setup env []))
           | Inr d \<Rightarrow> bind (render2 env d) (\<lambda>_. save_and_open env) (snd (font_setup env []))))"
proof -
  define ftr where "ftr = snd (font_setup env [])"
  have f: "font_setup env [] = (Inr (), ftr)"
    by (simp add: ftr_def font_setup_result)
  show ?thesis
    unfolding ftr_def [symmetric]
    by (simp add: main2_def load2_def bind_def lift_def f split: sum.splits)
qed

lemma loglog_fit_result:
  "loglog_fit env ch x y tr =
     (case polyfit env (map flog10 x) (map flog10 y) 1 of
        Inl e \<Rightarrow> (Inl e, tr @ [Log10 x, Log10 y])
      | Inr c \<Rightarrow>
          (case unpack2 c of
             Inl e \<Rightarrow> (Inl e, tr @ [Log10 x, Log10 y])
           | Inr _ \<Rightarrow> (Inr (), tr @ [Log10 x, Log10 y, Log10 x, Plot Fit ch])))"
  by (simp add: loglog_fit_def np_log10_def io_defs split: sum.splits)

lemma fit_stage2_result:
  "fit_stage2 env x y1 y2 tr =
     (Inr (), tr @
       (case loglog_fit env Data1 x y1 [] of
          (Inl e, t1) \<Rightarrow> t1 @ [Print (fit_error_prefix2 @ exn_str e), Print fit_skip_notice2]
        | (Inr _, t1) \<Rightarrow>
            (case loglog_fit env Data2 x y2 [] of
               (Inl e, t2) \<Rightarrow>
                 t1 @ t2 @ [Print (fit_error_prefix2 @ exn_str e), Print fit_skip_notice2]
             | (Inr _, t2) \<Rightarrow> t1 @ t2)))"
  by (simp add: fit_stage2_def PLOT_FIT_def loglog_fit_result io_defs split: sum.splits)

lemma main2_success:
  assumes "read_excel env (path_join env (current_dir env) DATA_FILE2) = Inr df"
    and "clean2 df = Inr (x, y1, y2)"
  shows "main2 env [] = (Inr (),
           snd (font_setup env []) @
           [Scatter Data1 x y1, Scatter Data2 x y2, Plot Theory Data1, Plot Theory Data2] @
           snd (fit_stage2 env x y1 y2 []) @ [AxisSetup True True False] @
           snd (save_and_open env []))"
  using assms
  by (simp add: main2_unfold render2_def theory_stage2_def PLOT_THEORY_def bind_def emit_def
        fit_stage2_result [of env x y1 y2 "_ @ _"] fit_stage2_result [of env x y1 y2 "[]"]
        save_and_open_result)

lemma fit_stage2_log10:
  assumes "Log10 xs \<in> set (snd (fit_stage2 env x y1 y2 []))"
  shows "xs = x \<or> xs = y1 \<or> xs = y2"
  using assms
  by (auto simp add: fit_stage2_result loglog_fit_result split: sum.splits)

lemma series_take_set:
  "v \<in> set (series_take xs m) \<longleftrightarrow> (\<exists>i. i < length xs \<and> i < length m \<and> xs ! i = v \<and> m ! i)"
  by (auto simp add: series_take_def in_set_zip image_iff)

lemma length_series_and [simp]:
  "length (series_and as bs) = min (length as) (length bs)"
  by (simp add: series_and_def)

lemma nth_series_and:
  "i < length as \<Longrightarrow> i < length bs \<Longrightarrow> series_and as bs ! i = (as ! i \<and> bs ! i)"
  by (simp add: series_and_def)

lemma length_mask1 [simp]:
  "length (mask1 x y1 y2) = min (length x) (min (length y1) (length y2))"
  by (simp add: mask1_def series_not_def np_isnan_def)

lemma length_mask2 [simp]:
  "length (mask2 x y1 y2) = min (length x) (min (length y1) (length y2))"
  by (simp add: mask2_def series_not_def np_isnan_def series_gt_def)

lemma nth_mask1:
  assumes "i < length x" "i < length y1" "i < length y2"
  shows "mask1 x y1 y2 ! i = (\<not> isnan (x ! i) \<and> \<not> isnan (y1 ! i) \<and> \<not> isnan (y2 ! i))"
  using assms by (simp add: mask1_def nth_series_and series_not_def np_isnan_def)

lemma nth_mask2:
  assumes "i < length x" "i < length y1" "i < length y2"
  shows "mask2 x y1 y2 ! i =
     (fgt (x ! i) (Fin 0) \<and> fgt (y1 ! i) (Fin 0) \<and> fgt (y2 ! i) (Fin 0) \<and>
      \<not> isnan (x ! i) \<and> \<not> isnan (y1 ! i) \<and> \<not> isnan (y2 ! i))"
  using assms
  by (simp add: mask2_def nth_series_and series_not_def np_isnan_def series_gt_def)

lemma fgt_zero_positive: "fgt v (Fin 0) \<Longrightarrow> strictly_positive v"
  by (cases v) simp_all

lemma length_series_take:
  "length xs = length m \<Longrightarrow> length (series_take xs m) = length (filter (\<lambda>b. b) m)"
  by (induction xs m rule: list_induct2) (simp_all add: series_take_def)

lemma getitem_in_frame: "getitem df c = Inr vs \<Longrightarrow> (c, vs) \<in> set df"
  by (auto simp add: getitem_def split: option.splits dest: map_of_SomeD)

lemma wf_columns_length:
  assumes "wf_dataframe df" "getitem df c = Inr vs" "getitem df d = Inr ws"
  shows "length vs = length ws"
  using assms getitem_in_frame [of df c vs] getitem_in_frame [of df d ws]
  by (fastforce simp add: wf_dataframe_def)

lemma clean1_columns:
  assumes "clean1 df = Inr (x, y1, y2)"
  shows "\<exists>x0 y10 y20. getitem df X_COL1 = Inr x0 \<and> getitem df Y1_COL1 = Inr y10 \<and>
           getitem df Y2_COL1 = Inr y20 \<and>
           x = series_take x0 (mask1 x0 y10 y20) \<and>
           y1 = series_take y10 (mask1 x0 y10 y20) \<and>
           y2 = series_take y20 (mask1 x0 y10 y20)"
  using assms by (auto simp add: clean1_def Let_def split: sum.splits)

lemma clean2_columns:
  assumes "clean2 df = Inr (x, y1, y2)"
  shows "\<exists>x0 y10 y20. getitem df X_COL2 = Inr x0 \<and> getitem df Y1_COL2 = Inr y10 \<and>
           getitem df Y2_COL2 = Inr y20 \<and>
           x = series_take x0 (mask2 x0 y10 y20) \<and>
           y1 = series_take y10 (mask2 x0 y10 y20) \<and>
           y2 = series_take y20 (mask2 x0 y10 y20)"
  using assms by (auto simp add: clean2_def Let_def split: sum.splits)

lemma taken_mask1:
  assumes "v \<in> set (series_take x (mask1 x y1 y2)) \<union> set (series_take y1 (mask1 x y1 y2)) \<union>
               set (series_take y2 (mask1 x y1 y2))"
  shows "\<not> isnan v"
  using assms by (auto simp add: series_take_set nth_mask1)

lemma taken_mask2:
  assumes "v \<in> set (series_take x (mask2 x y1 y2)) \<union> set (series_take y1 (mask2 x y1 y2)) \<union>
               set (series_take y2 (mask2 x y1 y2))"
  shows "\<not> isnan v \<and> fgt v (Fin 0)"
  using assms by (auto simp add: series_take_set nth_mask2)

lemma clean2_positive:
  assumes "clean2 df = Inr (x, y1, y2)" and "v \<in> set x \<union> set y1 \<union> set y2"
  shows "strictly_positive v"
proof -
  obtain x0 y10 y20 where
    "x = series_take x0 (mask2 x0 y10 y20)" "y1 = series_take y10 (mask2 x0 y10 y20)"
    "y2 = series_take y20 (mask2 x0 y10 y20)"
    using clean2_columns [OF assms(1)] by blast
  with assms(2) show ?thesis
    using taken_mask2 [of v x0 y10 y20] fgt_zero_positive by blast
qed

text \<open>
  Claim C10. In pipeline 2 every array handed to \<open>log10\<close> during a run holds strictly
  positive values only: the arrays are the cleaned columns, and the validity mask keeps
  a row only if all three of its cells are above zero.
\<close>

theorem log10_arguments_positive:
  "\<forall>xs. Log10 xs \<in> set (snd (main2 env [])) \<longrightarrow> (\<forall>v \<in> set xs. strictly_positive v)"
proof (intro allI impI ballI)
  fix xs v
  assume l: "Log10 xs \<in> set (snd (main2 env []))" and v: "v \<in> set xs"
  show "strictly_positive v"
  proof (cases "read_excel env (path_join env (current_dir env) DATA_FILE2)")
    case (Inl e)
    then show ?thesis using l by (simp add: main2_unfold font_trace_no_plots)
  next
    case (Inr df)
    show ?thesis
    proof (cases "clean2 df")
      case (Inl e)
      then show ?thesis using l Inr by (simp add: main2_unfold font_trace_no_plots)
    next
      case r: (Inr d)
      obtain x y1 y2 where d: "d = (x, y1, y2)" by (cases d) auto
      have "Log10 xs \<in> set (snd (fit_stage2 env x y1 y2 []))"
        using l main2_success [OF Inr r [unfolded d]]
        by (simp add: font_trace_no_plots save_and_open_result open_image_no_plots)
      then have "xs = x \<or> xs = y1 \<or> xs = y2" by (rule fit_stage2_log10)
      with v have "v \<in> set x \<union> set y1 \<union> set y2" by auto
      then show ?thesis using clean2_positive [OF r [unfolded d]] by blast
    qed
  qed
qed

text \<open>
  Claim C2, as amended. After the validity filter the three sequences have equal length
  and hold no NaN (a missing cell); in pipeline 2 every kept value is also above zero;
  and the three sequences are the three columns indexed by one and the same mask.
  Infinite values are not removed: the filter tests \<open>isnan\<close> only.
\<close>

theorem cleaned_samples_aligned:
  assumes "wf_dataframe df"
  shows "(clean1 df = Inr (x, y1, y2) \<longrightarrow>
            length x = length y1 \<and> length y1 = length y2 \<and>
            (\<forall>v \<in> set x \<union> set y1 \<union> set y2. \<not> isnan v) \<and>
            (\<exists>x0 y10 y20 msk. getitem df X_COL1 = Inr x0 \<and> getitem df Y1_COL1 = Inr y10 \<and>
               getitem df Y2_COL1 = Inr y20 \<and> x = series_take x0 msk \<and>
               y1 = series_take y10 msk \<and> y2 = series_take y20 msk)) \<and>
         (clean2 df = Inr (x, y1, y2) \<longrightarrow>
            length x = length y1 \<and> length y1 = length y2 \<and>
            (\<forall>v \<in> set x \<union> set y1 \<union> set y2. \<not> isnan v \<and> fgt v (Fin 0)) \<and>
            (\<exists>x0 y10 y20 msk. getitem df X_COL2 = Inr x0 \<and> getitem df Y1_COL2 = Inr y10 \<and>
               getitem df Y2_COL2 = Inr y20 \<and> x = series_take x0 msk \<and>
               y1 = series_take y10 msk \<and> y2 = series_take y20 msk))"
proof (intro conjI impI)
  assume c: "clean1 df = Inr (x, y1, y2)"
  then obtain x0 y10 y20 where g: "getitem df X_COL1 = Inr x0" "getitem df Y1_COL1 = Inr y10"
      "getitem df Y2_COL1 = Inr y20"
    and t: "x = series_take x0 (mask1 x0 y10 y20)" "y1 = series_take y10 (mask1 x0 y10 y20)"
      "y2 = series_take y20 (mask1 x0 y10 y20)"
    using clean1_columns by blast
  have len: "length x0 = length y10" "length y10 = length y20"
    using wf_columns_length [OF assms] g by blast+
  have "length x = length (filter (\<lambda>b. b) (mask1 x0 y10 y20))"
    unfolding t by (rule length_series_take) (simp add: len)
  moreover have "length y1 = length (filter (\<lambda>b. b) (mask1 x0 y10 y20))"
    unfolding t by (rule length_series_take) (simp add: len)
  moreover have "length y2 = length (filter (\<lambda>b. b) (mask1 x0 y10 y20))"
    unfolding t by (rule length_series_take) (simp add: len)
  ultimately show "length x = length y1" and "length y1 = length y2" by simp_all
  show "\<forall>v \<in> set x \<union> set y1 \<union> set y2. \<not> isnan v"
    unfolding t using taken_mask1 by blast
  show "\<exists>x0 y10 y20 msk. getitem df X_COL1 = Inr x0 \<and> getitem df Y1_COL1 = Inr y10 \<and>
               getitem df Y2_COL1 = Inr y20 \<and> x = series_take x0 msk \<and>
               y1 = series_take y10 msk \<and> y2 = series_take y20 msk"
    using g t by blast
next
  assume c: "clean2 df = Inr (x, y1, y2)"
  then obtain x0 y10 y20 where g: "getitem df X_COL2 = Inr x0" "getitem df Y1_COL2 = Inr y10"
      "getitem df Y2_COL2 = Inr y20"
    and t: "x = series_take x0 (mask2 x0 y10 y20)" "y1 = series_take y10 (mask2 x0 y10 y20)"
      "y2 = series_take y20 (mask2 x0 y10 y20)"
    using clean2_columns by blast
  have len: "length x0 = length y10" "length y10 = length y20"
    using wf_columns_length [OF assms] g by blast+
  have "length x = length (filter (\<lambda>b. b) (mask2 x0 y10 y20))"
    unfolding t by (rule length_series_take) (simp add: len)
  moreover have "length y1 = length (filter (\<lambda>b. b) (mask2 x0 y10 y20))"
    unfolding t by (rule length_series_take) (simp add: len)
  moreover have "length y2 = length (filter (\<lambda>b. b) (mask2 x0 y10 y20))"
    unfolding t by (rule length_series_take) (simp add: len)
  ultimately show "length x = length y1" and "length y1 = length y2" by simp_all
  show "\<forall>v \<in> set x \<union> set y1 \<union> set y2. \<not> isnan v \<and> fgt v (Fin 0)"
    unfolding t using taken_mask2 by blast
  show "\<exists>x0 y10 y20 msk. getitem df X_COL2 = Inr x0 \<and> getitem df Y1_COL2 = Inr y10 \<and>
               getitem df Y2_COL2 = Inr y20 \<and> x = series_take x0 msk \<and>
               y1 = series_take y10 msk \<and> y2 = series_take y20 msk"
    using g t by blast
qed

lemma save_and_open_events:
  "list_ex is_savefig (snd (save_and_open env []))"
  "\<not> list_ex is_fit_plot (snd (save_and_open env []))"
  "\<forall>c ch. Plot c ch \<notin> set (snd (save_and_open env []))"
  by (simp_all add: save_and_open_result open_image_no_plots)

text \<open>
  Claim C4. When a least-squares fit raises in a run that reached the fitter, the
  exception is caught by the handler around the fits: the run ends without an exception,
  the two notice lines (the first holding the text of the exception) are printed, the
  axis set-up and the saving of the image still happen, and the fit series whose
  computation raised is not drawn. When it is the fit of channel 1 that raises, no fit
  series is drawn at all; when the fit of channel 1 succeeded and the fit of channel 2
  raises, the series of channel 2 is the one left out.
\<close>

theorem fit_failure_is_contained:
  "(read_excel env (path_join env (current_dir env) DATA_FILE1) = Inr df \<and>
    clean1 df = Inr (x, y1, y2) \<and> x \<noteq> [] \<and> polyfit env x y1 2 = Inl e \<longrightarrow>
      fst (main1 env []) = Inr () \<and>
      Print (fit_error_prefix1 @ exn_str e) \<in> set (snd (main1 env [])) \<and>
      Print fit_skip_notice1 \<in> set (snd (main1 env [])) \<and>
      \<not> list_ex is_fit_plot (snd (main1 env [])) \<and>
      AxisSetup False False True \<in> set (snd (main1 env [])) \<and>
      list_ex is_savefig (snd (main1 env []))) \<and>
   (read_excel env (path_join env (current_dir env) DATA_FILE1) = Inr df \<and>
    clean1 df = Inr (x, y1, y2) \<and> x \<noteq> [] \<and> polyfit env x y1 2 = Inr c \<and>
    polyfit env x y2 2 = Inl e \<longrightarrow>
      fst (main1 env []) = Inr () \<and>
      Print (fit_error_prefix1 @ exn_str e) \<in> set (snd (main1 env [])) \<and>
      Print fit_skip_notice1 \<in> set (snd (main1 env [])) \<and>
      Plot Fit Data2 \<notin> set (snd (main1 env [])) \<and>
      AxisSetup False False True \<in> set (snd (main1 env [])) \<and>
      list_ex is_savefig (snd (main1 env []))) \<and>
   (read_excel env (path_join env (current_dir env) DATA_FILE2) = Inr df \<and>
    clean2 df = Inr (x, y1, y2) \<and>
    polyfit env (map flog10 x) (map flog10 y1) 1 = Inl e \<longrightarrow>
      fst (main2 env []) = Inr () \<and>
      Print (fit_error_prefix2 @ exn_str e) \<in> set (snd (main2 env [])) \<and>
      Print fit_skip_notice2 \<in> set (snd (main2 env [])) \<and>
      \<not> list_ex is_fit_plot (snd (main2 env [])) \<and>
      AxisSetup True True False \<in> set (snd (main2 env [])) \<and>
      list_ex is_savefig (snd (main2 env []))) \<and>
   (read_excel env (path_join env (current_dir env) DATA_FILE2) = Inr df \<and>
    clean2 df = Inr (x, y1, y2) \<and>
    polyfit env (map flog10 x) (map flog10 y1) 1 = Inr c \<and> unpack2 c = Inr p \<and>
    polyfit env (map flog10 x) (map flog10 y2) 1 = Inl e \<longrightarrow>
      fst (main2 env []) = Inr () \<and>
      Print (fit_error_prefix2 @ exn_str e) \<in> set (snd (main2 env [])) \<and>
      Print fit_skip_notice2 \<in> set (snd (main2 env [])) \<and>
      Plot Fit Data2 \<notin> set (snd (main2 env [])) \<and>
      AxisSetup True True False \<in> set (snd (main2 env [])) \<and>
      list_ex is_savefig (snd (main2 env [])))"
proof (intro conjI impI)
  assume h: "read_excel env (path_join env (current_dir env) DATA_FILE1) = Inr df \<and>
    clean1 df = Inr (x, y1, y2) \<and> x \<noteq> [] \<and> polyfit env x y1 2 = Inl e"
  then have m: "main1 env [] = (Inr (),
           snd (font_setup env []) @
           [Scatter Data1 x y1, Scatter Data2 x y2, Plot Theory Data1, Plot Theory Data2] @
           snd (fit_stage1 env x y1 y2 []) @ [AxisSetup False False True] @
           snd (save_and_open env []))"
    using main1_nonempty by blast
  have f: "snd (fit_stage1 env x y1 y2 []) =
      [Print (fit_error_prefix1 @ exn_str e), Print fit_skip_notice1]"
    using h by (simp add: fit_stage1_result)
  show "fst (main1 env []) = Inr ()" by (simp add: m)
  show "Print (fit_error_prefix1 @ exn_str e) \<in> set (snd (main1 env []))" by (simp add: m f)
  show "Print fit_skip_notice1 \<in> set (snd (main1 env []))" by (simp add: m f)
  show "\<not> list_ex is_fit_plot (snd (main1 env []))"
    by (simp add: m f font_trace_no_plots save_and_open_events)
  show "AxisSetup False False True \<in> set (snd (main1 env []))" by (simp add: m)
  show "list_ex is_savefig (snd (main1 env []))" by (simp add: m save_and_open_events)
next
  assume h: "read_excel env (path_join env (current_dir env) DATA_FILE1) = Inr df \<and>
    clean1 df = Inr (x, y1, y2) \<and> x \<noteq> [] \<and> polyfit env x y1 2 = Inr c \<and>
    polyfit env x y2 2 = Inl e"
  then have m: "main1 env [] = (Inr (),
           snd (font_setup env []) @
           [Scatter Data1 x y1, Scatter Data2 x y2, Plot Theory Data1, Plot Theory Data2] @
           snd (fit_stage1 env x y1 y2 []) @ [AxisSetup False False True] @
           snd (save_and_open env []))"
    using main1_nonempty by blast
  have f: "snd (fit_stage1 env x y1 y2 []) =
      [Plot Fit Data1, Print (fit_error_prefix1 @ exn_str e), Print fit_skip_notice1]"
    using h by (simp add: fit_stage1_result)
  show "fst (main1 env []) = Inr ()" by (simp add: m)
  show "Print (fit_error_prefix1 @ exn_str e) \<in> set (snd (main1 env []))" by (simp add: m f)
  show "Print fit_skip_notice1 \<in> set (snd (main1 env []))" by (simp add: m f)
  show "Plot Fit Data2 \<notin> set (snd (main1 env []))"
    by (simp add: m f font_trace_no_plots save_and_open_events)
  show "AxisSetup False False True \<in> set (snd (main1 env []))" by (simp add: m)
  show "list_ex is_savefig (snd (main1 env []))" by (simp add: m save_and_open_events)
next
  assume h: "read_excel env (path_join env (current_dir env) DATA_FILE2) = Inr df \<and>
    clean2 df = Inr (x, y1, y2) \<and>
    polyfit env (map flog10 x) (map flog10 y1) 1 = Inl e"
  then have m: "main2 env [] = (Inr (),
           snd (font_setup env []) @
           [Scatter Data1 x y1, Scatter Data2 x y2, Plot Theory Data1, Plot Theory Data2] @
           snd (fit_stage2 env x y1 y2 []) @ [AxisSetup True True False] @
           snd (save_and_open env []))"
    using main2_success by blast
  have f: "snd (fit_stage2 env x y1 y2 []) =
      [Log10 x, Log10 y1, Print (fit_error_prefix2 @ exn_str e), Print fit_skip_notice2]"
    using h by (simp add: fit_stage2_result loglog_fit_result)
  show "fst (main2 env []) = Inr ()" by (simp add: m)
  show "Print (fit_error_prefix2 @ exn_str e) \<in> set (snd (main2 env []))" by (simp add: m f)
  show "Print fit_skip_notice2 \<in> set (snd (main2 env []))" by (simp add: m f)
  show "\<not> list_ex is_fit_plot (snd (main2 env []))"
    by (simp add: m f font_trace_no_plots save_and_open_events)
  show "AxisSetup True True False \<in> set (snd (main2 env []))" by (simp add: m)
  show "list_ex is_savefig (snd (main2 env []))" by (simp add: m save_and_open_events)
next
  assume h: "read_excel env (path_join env (current_dir env) DATA_FILE2) = Inr df \<and>
    clean2 df = Inr (x, y1, y2) \<and>
    polyfit env (map flog10 x) (map flog10 y1) 1 = Inr c \<and> unpack2 c = Inr p \<and>
    polyfit env (map flog10 x) (map flog10 y2) 1 = Inl e"
  then have m: "main2 env [] = (Inr (),
           snd (font_setup env []) @
           [Scatter Data1 x y1, Scatter Data2 x y2, Plot Theory Data1, Plot Theory Data2] @
           snd (fit_stage2 env x y1 y2 []) @ [AxisSetup True True False] @
           snd (save_and_open env []))"
    using main2_success by blast
  have f: "snd (fit_stage2 env x y1 y2 []) =
      [Log10 x, Log10 y1, Log10 x, Plot Fit Data1, Log10 x, Log10 y2,
       Print (fit_error_prefix2 @ exn_str e), Print fit_skip_notice2]"
    using h by (simp add: fit_stage2_result loglog_fit_result)
  show "fst (main2 env []) = Inr ()" by (simp add: m)
  show "Print (fit_error_prefix2 @ exn_str e) \<in> set (snd (main2 env []))" by (simp add: m f)
  show "Print fit_skip_notice2 \<in> set (snd (main2 env []))" by (simp add: m f)
  show "Plot Fit Data2 \<notin> set (snd (main2 env []))"
    by (simp add: m f font_trace_no_plots save_and_open_events)
  show "AxisSetup True True False \<in> set (snd (main2 env []))" by (simp add: m)
  show "list_ex is_savefig (snd (main2 env []))" by (simp add: m save_and_open_events)
qed

section \<open>Sample runs\<close>

lemmas col_defs = X_COL1_def Y1_COL1_def Y2_COL1_def X_COL2_def Y1_COL2_def Y2_COL2_def
lemmas mask_defs = mask1_def mask2_def series_and_def series_not_def np_isnan_def
  series_gt_def series_take_def

lemma clean1_sample:
  "clean1 sample_frame = Inr ([Fin 0, Fin 1], [Fin 25, Fin 30], [Fin 25, PInf])"
  by (simp add: clean1_def getitem_def sample_frame_def col_defs mask_defs)

lemma clean2_sample:
  "clean2 sample_frame = Inr ([Fin 10, Fin 100], [Fin 1, Fin (1 / 2)], [Fin (1 / 100), PInf])"
  by (simp add: clean2_def getitem_def sample_frame_def col_defs mask_defs)

lemma clean1_blank: "clean1 blank_frame = Inr ([], [], [])"
  by (simp add: clean1_def getitem_def blank_frame_def col_defs mask_defs)

lemma wf_sample_frame: "wf_dataframe sample_frame"
  by (simp add: wf_dataframe_def sample_frame_def)

theorem cleaned_samples_aligned_witness:
  "wf_dataframe sample_frame \<and>
   clean1 sample_frame = Inr ([Fin 0, Fin 1], [Fin 25, Fin 30], [Fin 25, PInf]) \<and>
   clean2 sample_frame = Inr ([Fin 10, Fin 100], [Fin 1, Fin (1 / 2)], [Fin (1 / 100), PInf]) \<and>
   length [Fin 0, Fin 1] = length [Fin 25, Fin 30] \<and>
   list_all (\<lambda>v. \<not> isnan v) ([Fin 0, Fin 1] @ [Fin 25, Fin 30] @ [Fin 25, PInf]) \<and>
   list_all (\<lambda>v. \<not> isnan v \<and> fgt v (Fin 0))
     ([Fin 10, Fin 100] @ [Fin 1, Fin (1 / 2)] @ [Fin (1 / 100), PInf])"
proof -
  have w: "wf_dataframe sample_frame" by (rule wf_sample_frame)
  have c1: "clean1 sample_frame = Inr ([Fin 0, Fin 1], [Fin 25, Fin 30], [Fin 25, PInf])"
    by (rule clean1_sample)
  have c2: "clean2 sample_frame =
      Inr ([Fin 10, Fin 100], [Fin 1, Fin (1 / 2)], [Fin (1 / 100), PInf])"
    by (rule clean2_sample)
  from cleaned_samples_aligned [OF w, of "[Fin 0, Fin 1]" "[Fin 25, Fin 30]" "[Fin 25, PInf]"] c1
  have a: "\<forall>v \<in> set [Fin 0, Fin 1] \<union> set [Fin 25, Fin 30] \<union> set [Fin 25, PInf]. \<not> isnan v"
    by blast
  from cleaned_samples_aligned [OF w, of "[Fin 10, Fin 100]" "[Fin 1, Fin (1 / 2)]"
      "[Fin (1 / 100), PInf]"] c2
  have b: "\<forall>v \<in> set [Fin 10, Fin 100] \<union> set [Fin 1, Fin (1 / 2)] \<union> set [Fin (1 / 100), PInf].
      \<not> isnan v \<and> fgt v (Fin 0)"
    by blast
  from a have a': "list_all (\<lambda>v. \<not> isnan v)
      ([Fin 0, Fin 1] @ [Fin 25, Fin 30] @ [Fin 25, PInf])"
    unfolding list_all_iff set_append by blast
  from b have b': "list_all (\<lambda>v. \<not> isnan v \<and> fgt v (Fin 0))
      ([Fin 10, Fin 100] @ [Fin 1, Fin (1 / 2)] @ [Fin (1 / 100), PInf])"
    unfolding list_all_iff set_append by blast
  have "length [Fin 0, Fin 1] = length [Fin 25, Fin 30]" by simp
  with w c1 c2 a' b' show ?thesis by blast
qed

text \<open>
  An infinite cell passes the validity filter of both scripts: the cleaned abscissa of
  these one-row spreadsheets is not finite.
\<close>

theorem cleaned_samples_keep_infinity:
  "wf_dataframe [(''Time'', [PInf]), (''Temp1'', [Fin 1]), (''Temp2'', [Fin 1])] \<and>
   clean1 [(''Time'', [PInf]), (''Temp1'', [Fin 1]), (''Temp2'', [Fin 1])]
     = Inr ([PInf], [Fin 1], [Fin 1]) \<and>
   \<not> list_all isfinite [PInf] \<and>
   wf_dataframe [(''Hz'', [PInf]), (''G_s'', [Fin 1]), (''G_b'', [Fin 1])] \<and>
   clean2 [(''Hz'', [PInf]), (''G_s'', [Fin 1]), (''G_b'', [Fin 1])]
     = Inr ([PInf], [Fin 1], [Fin 1])"
  by (simp add: wf_dataframe_def clean1_def clean2_def getitem_def col_defs mask_defs)

lemma sample_env_simps:
  "read_excel (sample_env fr pf) p = Inr fr"
  "polyfit (sample_env fr pf) = pf"
  "subprocess_run (sample_env fr pf) cmd sh = Inl (OSError ''No such file or directory'')"
  "path_join (sample_env fr pf) (current_dir (sample_env fr pf))
     (current_file (sample_env fr pf) @ ''.png'') = ''/home/user/graphs/graph.png''"
  by (simp_all add: sample_env_def)

theorem missing_column_aborts_witness:
  "read_excel (sample_env short_frame polyfit_finite)
      (path_join (sample_env short_frame polyfit_finite)
         (current_dir (sample_env short_frame polyfit_finite)) DATA_FILE1) = Inr short_frame \<and>
   map_of short_frame Y1_COL1 = None \<and>
   read_excel (sample_env short_frame polyfit_finite)
      (path_join (sample_env short_frame polyfit_finite)
         (current_dir (sample_env short_frame polyfit_finite)) DATA_FILE2) = Inr short_frame \<and>
   map_of short_frame Y1_COL2 = None \<and>
   (\<exists>c \<in> {X_COL1, Y1_COL1, Y2_COL1}.
      fst (main1 (sample_env short_frame polyfit_finite) []) = Inl (KeyError c)) \<and>
   \<not> list_ex is_render (snd (main1 (sample_env short_frame polyfit_finite) [])) \<and>
   (\<exists>c \<in> {X_COL2, Y1_COL2, Y2_COL2}.
      fst (main2 (sample_env short_frame polyfit_finite) []) = Inl (KeyError c)) \<and>
   \<not> list_ex is_render (snd (main2 (sample_env short_frame polyfit_finite) []))"
proof -
  have r1: "read_excel (sample_env short_frame polyfit_finite)
      (path_join (sample_env short_frame polyfit_finite)
         (current_dir (sample_env short_frame polyfit_finite)) DATA_FILE1) = Inr short_frame"
    and r2: "read_excel (sample_env short_frame polyfit_finite)
      (path_join (sample_env short_frame polyfit_finite)
         (current_dir (sample_env short_frame polyfit_finite)) DATA_FILE2) = Inr short_frame"
    by (simp_all add: sample_env_simps)
  have m1: "map_of short_frame Y1_COL1 = None" and m2: "map_of short_frame Y1_COL2 = None"
    by (simp_all add: short_frame_def col_defs)
  from missing_column_aborts [of "sample_env short_frame polyfit_finite" short_frame]
    r1 r2 m1 m2
  show ?thesis by blast
qed

theorem empty_data_aborts_before_save_witness:
  "read_excel (sample_env blank_frame polyfit_finite)
      (path_join (sample_env blank_frame polyfit_finite)
         (current_dir (sample_env blank_frame polyfit_finite)) DATA_FILE1) = Inr blank_frame \<and>
   clean1 blank_frame = Inr ([], [], []) \<and>
   fst (main1 (sample_env blank_frame polyfit_finite) [])
     = Inl (ValueError ''max() arg is an empty sequence'') \<and>
   \<not> list_ex is_savefig (snd (main1 (sample_env blank_frame polyfit_finite) [])) \<and>
   list_ex is_savefig (snd (main1 (sample_env sample_frame polyfit_finite) [])) \<and>
   (\<exists>df' x' y1' y2'.
      read_excel (sample_env sample_frame polyfit_finite)
        (path_join (sample_env sample_frame polyfit_finite)
           (current_dir (sample_env sample_frame polyfit_finite)) DATA_FILE1) = Inr df' \<and>
      clean1 df' = Inr (x', y1', y2') \<and> x' \<noteq> [])"
proof -
  have r: "read_excel (sample_env blank_frame polyfit_finite)
      (path_join (sample_env blank_frame polyfit_finite)
         (current_dir (sample_env blank_frame polyfit_finite)) DATA_FILE1) = Inr blank_frame"
    by (simp add: sample_env_simps)
  have c: "clean1 blank_frame = Inr ([], [], [])" by (rule clean1_blank)
  have s: "list_ex is_savefig (snd (main1 (sample_env sample_frame polyfit_finite) []))"
    by (simp add: main1_nonempty [of _ sample_frame, OF _ clean1_sample] sample_env_simps
          save_and_open_events)
  from empty_data_aborts_before_save
    [of "sample_env blank_frame polyfit_finite" blank_frame "[]" "[]"] r c
  have a: "fst (main1 (sample_env blank_frame polyfit_finite) [])
     = Inl (ValueError ''max() arg is an empty sequence'') \<and>
   \<not> list_ex is_savefig (snd (main1 (sample_env blank_frame polyfit_finite) []))"
    by blast
  from empty_data_aborts_before_save
    [of "sample_env sample_frame polyfit_finite" blank_frame "[]" "[]"] s
  have b: "\<exists>df' x' y1' y2'.
      read_excel (sample_env sample_frame polyfit_finite)
        (path_join (sample_env sample_frame polyfit_finite)
           (current_dir (sample_env sample_frame polyfit_finite)) DATA_FILE1) = Inr df' \<and>
      clean1 df' = Inr (x', y1', y2') \<and> x' \<noteq> []"
    by blast
  from r c s a b show ?thesis by blast
qed

theorem log10_arguments_positive_witness:
  "Log10 [Fin 10, Fin 100] \<in> set (snd (main2 (sample_env sample_frame polyfit_raising) [])) \<and>
   list_all strictly_positive [Fin 10, Fin 100]"
proof -
  have l: "Log10 [Fin 10, Fin 100]
      \<in> set (snd (main2 (sample_env sample_frame polyfit_raising) []))"
    by (simp add: main2_success [of _ sample_frame, OF _ clean2_sample] sample_env_simps
          fit_stage2_result loglog_fit_result polyfit_raising_def)
  from log10_arguments_positive [of "sample_env sample_frame polyfit_raising"] l
  have "\<forall>v \<in> set [Fin 10, Fin 100]. strictly_positive v" by blast
  then have "list_all strictly_positive [Fin 10, Fin 100]"
    unfolding list_all_iff by blast
  with l show ?thesis by blast
qed

lemma polyfit_finite_sample1:
  "polyfit_finite [Fin 0, Fin 1] [Fin 25, Fin 30] 2 = Inr [Fin 0, Fin 0, Fin 0]"
  "polyfit_finite [Fin 0, Fin 1] [Fin 25, PInf] 2
     = Inl (LinAlgError ''SVD did not converge in Linear Least Squares'')"
  by (simp_all add: polyfit_finite_def eval_nat_numeral)

lemma polyfit_finite_sample2:
  "polyfit_finite (map flog10 [Fin 10, Fin 100]) (map flog10 [Fin 1, Fin (1 / 2)]) 1
     = Inr [Fin 0, Fin 0]"
  "polyfit_finite (map flog10 [Fin 10, Fin 100]) (map flog10 [Fin (1 / 100), PInf]) 1
     = Inl (LinAlgError ''SVD did not converge in Linear Least Squares'')"
  by (simp_all add: polyfit_finite_def eval_nat_numeral)

theorem fit_failure_is_contained_witness:
  "clean1 sample_frame = Inr ([Fin 0, Fin 1], [Fin 25, Fin 30], [Fin 25, PInf]) \<and>
   clean2 sample_frame = Inr ([Fin 10, Fin 100], [Fin 1, Fin (1 / 2)], [Fin (1 / 100), PInf]) \<and>
   polyfit (sample_env sample_frame polyfit_raising) [Fin 0, Fin 1] [Fin 25, Fin 30] 2
     = Inl (LinAlgError ''SVD did not converge in Linear Least Squares'') \<and>
   fst (main1 (sample_env sample_frame polyfit_raising) []) = Inr () \<and>
   \<not> list_ex is_fit_plot (snd (main1 (sample_env sample_frame polyfit_raising) [])) \<and>
   list_ex is_savefig (snd (main1 (sample_env sample_frame polyfit_raising) [])) \<and>
   polyfit (sample_env sample_frame polyfit_finite) [Fin 0, Fin 1] [Fin 25, Fin 30] 2
     = Inr [Fin 0, Fin 0, Fin 0] \<and>
   polyfit (sample_env sample_frame polyfit_finite) [Fin 0, Fin 1] [Fin 25, PInf] 2
     = Inl (LinAlgError ''SVD did not converge in Linear Least Squares'') \<and>
   fst (main1 (sample_env sample_frame polyfit_finite) []) = Inr () \<and>
   Plot Fit Data2 \<notin> set (snd (main1 (sample_env sample_frame polyfit_finite) [])) \<and>
   list_ex is_savefig (snd (main1 (sample_env sample_frame polyfit_finite) [])) \<and>
   polyfit (sample_env sample_frame polyfit_raising)
       (map flog10 [Fin 10, Fin 100]) (map flog10 [Fin 1, Fin (1 / 2)]) 1
     = Inl (LinAlgError ''SVD did not converge in Linear Least Squares'') \<and>
   fst (main2 (sample_env sample_frame polyfit_raising) []) = Inr () \<and>
   \<not> list_ex is_fit_plot (snd (main2 (sample_env sample_frame polyfit_raising) [])) \<and>
   list_ex is_savefig (snd (main2 (sample_env sample_frame polyfit_raising) [])) \<and>
   polyfit (sample_env sample_frame polyfit_finite)
       (map flog10 [Fin 10, Fin 100]) (map flog10 [Fin 1, Fin (1 / 2)]) 1
     = Inr [Fin 0, Fin 0] \<and>
   unpack2 [Fin 0, Fin 0] = Inr (Fin 0, Fin 0) \<and>
   polyfit (sample_env sample_frame polyfit_finite)
       (map flog10 [Fin 10, Fin 100]) (map flog10 [Fin (1 / 100), PInf]) 1
     = Inl (LinAlgError ''SVD did not converge in Linear Least Squares'') \<and>
   fst (main2 (sample_env sample_frame polyfit_finite) []) = Inr () \<and>
   Plot Fit Data2 \<notin> set (snd (main2 (sample_env sample_frame polyfit_finite) [])) \<and>
   list_ex is_savefig (snd (main2 (sample_env sample_frame polyfit_finite) []))"
proof -
  define bad where "bad = LinAlgError ''SVD did not converge in Linear Least Squares''"
  define A where "A = sample_env sample_frame polyfit_raising"
  define B where "B = sample_env sample_frame polyfit_finite"
  have rA: "read_excel A (path_join A (current_dir A) DATA_FILE1) = Inr sample_frame"
      "read_excel A (path_join A (current_dir A) DATA_FILE2) = Inr sample_frame"
    and rB: "read_excel B (path_join B (current_dir B) DATA_FILE1) = Inr sample_frame"
      "read_excel B (path_join B (current_dir B) DATA_FILE2) = Inr sample_frame"
    by (simp_all add: A_def B_def sample_env_simps)
  have ne: "[Fin 0, Fin 1] \<noteq> []" by simp
  have a1: "polyfit A [Fin 0, Fin 1] [Fin 25, Fin 30] 2 = Inl bad"
    and a2: "polyfit A (map flog10 [Fin 10, Fin 100]) (map flog10 [Fin 1, Fin (1 / 2)]) 1
      = Inl bad"
    by (simp_all add: A_def bad_def sample_env_simps polyfit_raising_def)
  have b1: "polyfit B [Fin 0, Fin 1] [Fin 25, Fin 30] 2 = Inr [Fin 0, Fin 0, Fin 0]"
    and b2: "polyfit B [Fin 0, Fin 1] [Fin 25, PInf] 2 = Inl bad"
    and b3: "polyfit B (map flog10 [Fin 10, Fin 100]) (map flog10 [Fin 1, Fin (1 / 2)]) 1
      = Inr [Fin 0, Fin 0]"
    and b4: "polyfit B (map flog10 [Fin 10, Fin 100]) (map flog10 [Fin (1 / 100), PInf]) 1
      = Inl bad"
    unfolding B_def bad_def sample_env_simps
    by (simp_all only: polyfit_finite_sample1 polyfit_finite_sample2)
  have u: "unpack2 [Fin 0, Fin 0] = Inr (Fin 0, Fin 0)" by simp
  note t1 = fit_failure_is_contained [of A sample_frame "[Fin 0, Fin 1]" "[Fin 25, Fin 30]"
      "[Fin 25, PInf]" bad]
  note t2 = fit_failure_is_contained [of B sample_frame "[Fin 0, Fin 1]" "[Fin 25, Fin 30]"
      "[Fin 25, PInf]" bad "[Fin 0, Fin 0, Fin 0]"]
  note t3 = fit_failure_is_contained [of A sample_frame "[Fin 10, Fin 100]"
      "[Fin 1, Fin (1 / 2)]" "[Fin (1 / 100), PInf]" bad]
  note t4 = fit_failure_is_contained [of B sample_frame "[Fin 10, Fin 100]"
      "[Fin 1, Fin (1 / 2)]" "[Fin (1 / 100), PInf]" bad "[Fin 0, Fin 0]" "(Fin 0, Fin 0)"]
  have c1: "fst (main1 A []) = Inr () \<and> \<not> list_ex is_fit_plot (snd (main1 A [])) \<and>
      list_ex is_savefig (snd (main1 A []))"
    using t1 rA clean1_sample ne a1 by blast
  have c2: "fst (main1 B []) = Inr () \<and> Plot Fit Data2 \<notin> set (snd (main1 B [])) \<and>
      list_ex is_savefig (snd (main1 B []))"
    using t2 rB clean1_sample ne b1 b2 by blast
  have c3: "fst (main2 A []) = Inr () \<and> \<not> list_ex is_fit_plot (snd (main2 A [])) \<and>
      list_ex is_savefig (snd (main2 A []))"
    using t3 rA clean2_sample a2 by blast
  have c4: "fst (main2 B []) = Inr () \<and> Plot Fit Data2 \<notin> set (snd (main2 B [])) \<and>
      list_ex is_savefig (snd (main2 B []))"
    using t4 rB clean2_sample b3 b4 u by blast
  from clean1_sample clean2_sample a1 a2 b1 b2 b3 b4 u c1 c2 c3 c4
  show ?thesis unfolding A_def B_def bad_def by blast
qed

end
